theory Spec2Isabelle
  imports Complex_Main
begin

section \<open>Numbers and their decimal rendering\<close>

text \<open>
  The caption timestamps are Python floats, IEEE doubles. A finite double denotes a
  rational number and is modelled as that number (\<open>rat\<close>); what its arithmetic loses
  is modelled by rounding each result that C computes in floating point to the nearest
  double, ties to even (\<open>round_double\<close>, 53 significant bits; overflow, subnormal
  numbers, infinities, NaN and the sign of zero are outside the model: the recognition
  engine reports finite offsets). \<open>int(x)\<close> truncates towards zero. Every divisor in
  the source is a non-zero literal, so no division by zero arises.
\<close>

definition int_of_float :: "rat \<Rightarrow> int" where
  "int_of_float x = (if 0 \<le> x then \<lfloor>x\<rfloor> else \<lceil>x\<rceil>)"

text \<open>The binary exponent of a positive number: \<open>2 ^ e \<le> x < 2 ^ (e + 1)\<close>.\<close>

function ilog2 :: "int \<Rightarrow> nat" where
  "ilog2 n = (if n < 2 then 0 else Suc (ilog2 (n div 2)))"
  by pat_completeness auto
termination
  by (relation "measure nat") auto

declare ilog2.simps [simp del]

definition float_exponent :: "rat \<Rightarrow> int" where
  "float_exponent x =
     (if 1 \<le> x then int (ilog2 \<lfloor>x\<rfloor>)
      else - int (Suc (ilog2 (\<lceil>1 / x\<rceil> - 1))))"

definition pow2 :: "int \<Rightarrow> rat" where
  "pow2 e = (if 0 \<le> e then 2 ^ nat e else 1 / 2 ^ nat (- e))"

definition round_half_even :: "rat \<Rightarrow> int" where
  "round_half_even q =
     (let f = \<lfloor>q\<rfloor>; r = q - of_int f
      in if r < 1 / 2 then f else if 1 / 2 < r then f + 1 else if even f then f else f + 1)"

definition round_double :: "rat \<Rightarrow> rat" where
  "round_double x =
     (if x = 0 then 0
      else let ulp = pow2 (float_exponent \<bar>x\<bar> - 52)
           in of_int (round_half_even (x / ulp)) * ulp)"

text \<open>C's \<open>fmod\<close>: the remainder of the truncated quotient, always exact.\<close>

definition c_fmod :: "rat \<Rightarrow> rat \<Rightarrow> rat" where
  "c_fmod x y = x - y * of_int (int_of_float (x / y))"

text \<open>
  CPython computes \<open>vx // wx\<close> and \<open>vx % wx\<close> on floats as follows
  (\<open>Objects/floatobject.c\<close>):
  \<^verbatim>\<open>
  mod = fmod(vx, wx);
  div = (vx - mod) / wx;
  if (mod) { if ((wx < 0) != (mod < 0)) { mod += wx; div -= 1.0; } }
  if (div) { floordiv = floor(div); if (div - floordiv > 0.5) floordiv += 1.0; }
  else floordiv = 0;
  \<close>
  so the quotient is rounded twice, and is not the exact floor once it needs more than
  53 bits.
\<close>

definition sign_mismatch :: "rat \<Rightarrow> rat \<Rightarrow> bool" where
  "sign_mismatch md wx = (md \<noteq> 0 \<and> (wx < 0) \<noteq> (md < 0))"

definition float_divmod :: "rat \<Rightarrow> rat \<Rightarrow> rat \<times> rat" where
  "float_divmod vx wx =
     (let md = c_fmod vx wx;
          dv = round_double (round_double (vx - md) / wx);
          adjust = sign_mismatch md wx;
          md' = (if adjust then round_double (md + wx) else md);
          dv' = (if adjust then round_double (dv - 1) else dv);
          floordiv =
            (if dv' \<noteq> 0
             then let f = of_int \<lfloor>dv'\<rfloor>
                  in if dv' - f > 1 / 2 then round_double (f + 1) else f
             else 0)
      in (floordiv, md'))"

definition float_floordiv :: "rat \<Rightarrow> rat \<Rightarrow> rat" where
  "float_floordiv x y = fst (float_divmod x y)"

definition float_mod :: "rat \<Rightarrow> rat \<Rightarrow> rat" where
  "float_mod x y = snd (float_divmod x y)"

text \<open>\<open>str(n)\<close> for a natural number: its decimal digits, most significant first.\<close>

definition digit_char :: "nat \<Rightarrow> char" where
  "digit_char d = ''0123456789'' ! d"

fun str_nat :: "nat \<Rightarrow> string" where
  "str_nat n = (if n < 10 then [digit_char n] else str_nat (n div 10) @ [digit_char (n mod 10)])"

declare str_nat.simps [simp del]

definition zero_fill :: "nat \<Rightarrow> string \<Rightarrow> string" where
  "zero_fill width s = replicate (width - length s) (CHR ''0'') @ s"

text \<open>
  The format specification \<open>0w\<close> applied to an integer, as in \<open>f"{hours:02}"\<close>: zero
  padding to a minimum width of \<open>w\<close>, with the sign (if any) in front of the zeros and
  counted in the width. Longer numbers are never cut.
\<close>

definition format_int_0 :: "nat \<Rightarrow> int \<Rightarrow> string" where
  "format_int_0 width n =
     (if n < 0 then CHR ''-'' # zero_fill (width - 1) (str_nat (nat (- n)))
      else zero_fill width (str_nat (nat n)))"

section \<open>format_timestamp\<close>

text \<open>
  \<^verbatim>\<open>
  def format_timestamp(seconds):
      hours = int(seconds // 3600)
      minutes = int((seconds % 3600) // 60)
      seconds = int(seconds % 60)
      milliseconds = int((seconds % 1) * 1000)
      return f"{hours:02}:{minutes:02}:{seconds:02}.{milliseconds:03}"
  \<close>
  The third line rebinds \<open>seconds\<close> to an \<open>int\<close>; the fourth line reads the rebound
  variable (\<open>seconds'\<close> below), so its \<open>%\<close> and \<open>*\<close> are integer operations and the
  outer \<open>int\<close> is the identity.
\<close>

definition format_timestamp :: "rat \<Rightarrow> string" where
  "format_timestamp seconds =
     (let hours = int_of_float (float_floordiv seconds 3600);
          minutes = int_of_float (float_floordiv (float_mod seconds 3600) 60);
          seconds' = int_of_float (float_mod seconds 60);
          milliseconds = (seconds' mod 1) * 1000
      in format_int_0 2 hours @ '':'' @ format_int_0 2 minutes @ '':'' @
         format_int_0 2 seconds' @ ''.'' @ format_int_0 3 milliseconds)"

section \<open>Paths, file names and the clock\<close>

type_synonym path = string

text \<open>
  \<open>os.path.join(a, *p)\<close> of \<open>posixpath\<close>: a component that starts with the separator
  replaces what was joined so far; otherwise it is appended, with a separator unless
  the path is empty or already ends in one.
\<close>

definition join_step :: "path \<Rightarrow> path \<Rightarrow> path" where
  "join_step p b =
     (if take 1 b = ''/'' then b
      else if p = [] \<or> last p = CHR ''/'' then p @ b
      else p @ ''/'' @ b)"

definition os_path_join :: "path \<Rightarrow> path list \<Rightarrow> path" where
  "os_path_join a ps = foldl join_step a ps"

text \<open>\<open>str.rfind\<close> for a single character: the last index where it occurs, or \<open>-1\<close>.\<close>

fun rfind :: "string \<Rightarrow> char \<Rightarrow> int" where
  "rfind [] c = - 1"
| "rfind (x # xs) c =
     (let r = rfind xs c in if r \<noteq> - 1 then r + 1 else if x = c then 0 else - 1)"

text \<open>
  \<open>os.path.splitext\<close>: the extension starts at the last dot of the last path component,
  unless that component has only dots before it (the loop that skips leading dots).
\<close>

fun any_non_dot :: "string \<Rightarrow> bool" where
  "any_non_dot [] = False"
| "any_non_dot (c # cs) = (if c \<noteq> CHR ''.'' then True else any_non_dot cs)"

definition os_path_splitext :: "path \<Rightarrow> path \<times> string" where
  "os_path_splitext p =
     (let sepIndex = rfind p (CHR ''/'');
          dotIndex = rfind p (CHR ''.'')
      in if dotIndex > sepIndex \<and>
            any_non_dot (take (nat (dotIndex - (sepIndex + 1))) (drop (nat (sepIndex + 1)) p))
         then (take (nat dotIndex) p, drop (nat dotIndex) p)
         else (p, []))"

record datetime =
  year :: nat
  month :: nat
  day :: nat
  hour :: nat
  minute :: nat
  second :: nat
  microsecond :: nat

text \<open>\<open>t.strftime("%Y%m%d_%H%M%S")\<close>: every directive is a zero-padded decimal.\<close>

definition strftime_Ymd_HMS :: "datetime \<Rightarrow> string" where
  "strftime_Ymd_HMS t =
     zero_fill 4 (str_nat (year t)) @ zero_fill 2 (str_nat (month t)) @
     zero_fill 2 (str_nat (day t)) @ ''_'' @ zero_fill 2 (str_nat (hour t)) @
     zero_fill 2 (str_nat (minute t)) @ zero_fill 2 (str_nat (second t))"

section \<open>The world of a request: file system, log, exceptions\<close>

text \<open>
  An exception is its class and its description (\<open>str(e)\<close>); only subclasses of
  \<open>Exception\<close> are modelled. The file system maps the paths of regular files to their
  contents and records the directories; the log is the list of emitted records.
\<close>

datatype exc_class =
  FileNotFoundError | NotADirectoryError | IsADirectoryError | FileExistsError | OtherError

datatype exn = Exn exc_class string

fun exc_class_of :: "exn \<Rightarrow> exc_class" where
  "exc_class_of (Exn c m) = c"

fun str_exn :: "exn \<Rightarrow> string" where
  "str_exn (Exn c m) = m"

datatype level = INFO | ERROR

record world =
  dirs :: "path set"
  files :: "path \<rightharpoonup> string"
  log :: "(level \<times> string) list"

datatype io_op = MakeDirs path | OpenWrite path | Write path string

record file_storage =
  filename :: string
  stream :: string

record request =
  authorization :: "string option"
  audio_file :: "file_storage option"

record segment =
  seg_start :: rat
  seg_end :: rat
  seg_text :: string

record whisper_result =
  result_text :: string
  result_segments :: "segment list"

datatype body = Json "(string \<times> string) list" | Attachment path string

type_synonym response = "body \<times> nat"

text \<open>
  What the handler takes from outside: the two constants of the \<open>constants\<close> module,
  the clock reading of \<open>datetime.now()\<close>, the recognition engine
  (\<open>model.transcribe(file_path)\<close>, which returns a result or raises), and the
  operating system's verdict on every file-system call: \<open>fault env w op\<close> is the
  exception with which the call \<open>op\<close> is refused in world \<open>w\<close>, if it is refused
  (permissions, a missing parent directory, a full disk, an encoding error).
\<close>

record env =
  HARDCODED_TOKEN :: string
  STATIC_FOLDER :: path
  now :: datetime
  model_transcribe :: "path \<Rightarrow> exn + whisper_result"
  fault :: "world \<Rightarrow> io_op \<Rightarrow> exn option"

type_synonym 'a io = "world \<Rightarrow> world \<times> (exn + 'a)"

definition io_bind :: "'a io \<Rightarrow> ('a \<Rightarrow> 'b io) \<Rightarrow> 'b io" where
  "io_bind m k w = (case m w of (w1, Inl e) \<Rightarrow> (w1, Inl e) | (w1, Inr x) \<Rightarrow> k x w1)"

definition io_return :: "'a \<Rightarrow> 'a io" where
  "io_return x w = (w, Inr x)"

definition logger_info :: "string \<Rightarrow> unit io" where
  "logger_info msg w = (w\<lparr>log := log w @ [(INFO, msg)]\<rparr>, Inr ())"

definition logger_error :: "string \<Rightarrow> unit io" where
  "logger_error msg w = (w\<lparr>log := log w @ [(ERROR, msg)]\<rparr>, Inr ())"

text \<open>
  \<open>os.makedirs(p, exist_ok=True)\<close> creates \<open>p\<close> and its missing ancestors, and raises
  when \<open>p\<close> is a regular file.
\<close>

definition proper_ancestors :: "path \<Rightarrow> path list" where
  "proper_ancestors p = [take i p. i \<leftarrow> [1..<length p], p ! i = CHR ''/'']"

definition path_ancestors :: "path \<Rightarrow> path list" where
  "path_ancestors p = proper_ancestors p @ [p]"

definition os_makedirs :: "env \<Rightarrow> path \<Rightarrow> unit io" where
  "os_makedirs env p w =
     (case fault env w (MakeDirs p) of
        Some e \<Rightarrow> (w, Inl e)
      | None \<Rightarrow>
          if files w p \<noteq> None then (w, Inl (Exn FileExistsError p))
          else (w\<lparr>dirs := dirs w \<union> set (path_ancestors p)\<rparr>, Inr ()))"

text \<open>
  \<open>open(p, "w")\<close> creates or truncates the file; \<open>f.write(s)\<close> appends to it. A
  refused write leaves what was written before.
\<close>

definition open_w :: "env \<Rightarrow> path \<Rightarrow> unit io" where
  "open_w env p w =
     (case fault env w (OpenWrite p) of
        Some e \<Rightarrow> (w, Inl e)
      | None \<Rightarrow>
          if p \<in> dirs w then (w, Inl (Exn IsADirectoryError p))
          else (w\<lparr>files := (files w)(p \<mapsto> [])\<rparr>, Inr ()))"

definition file_write :: "env \<Rightarrow> path \<Rightarrow> string \<Rightarrow> unit io" where
  "file_write env p s w =
     (case fault env w (Write p s) of
        Some e \<Rightarrow> (w, Inl e)
      | None \<Rightarrow>
          (w\<lparr>files := (files w)(p \<mapsto> (case files w p of None \<Rightarrow> [] | Some c \<Rightarrow> c) @ s)\<rparr>,
           Inr ()))"

text \<open>\<open>FileStorage.save(dst)\<close>: open the destination for writing and copy the stream.\<close>

definition save :: "env \<Rightarrow> file_storage \<Rightarrow> path \<Rightarrow> unit io" where
  "save env f dst = io_bind (open_w env dst) (\<lambda>_. file_write env dst (stream f))"

text \<open>
  \<open>send_file(p, as_attachment=True)\<close> looks the path up (\<open>stat\<close>) and opens it. The
  look-up raises \<open>NotADirectoryError\<close> when a component before the last is a regular
  file, and \<open>FileNotFoundError\<close> when nothing is at \<open>p\<close>; opening a directory raises
  \<open>IsADirectoryError\<close>; a regular file is answered as a download with its content. (In
  a file system where whatever exists lies in directories, this is the order in which the
  operating system decides.)
\<close>

definition send_file :: "path \<Rightarrow> response io" where
  "send_file p w =
     (if list_ex (\<lambda>q. files w q \<noteq> None) (proper_ancestors p)
      then (w, Inl (Exn NotADirectoryError p))
      else case files w p of
        Some content \<Rightarrow> (w, Inr (Attachment p content, 200))
      | None \<Rightarrow>
          if p \<in> dirs w then (w, Inl (Exn IsADirectoryError p))
          else (w, Inl (Exn FileNotFoundError p)))"

section \<open>The transcription handler\<close>

text \<open>
  The names and paths that \<open>transcribe\<close> builds in its local variables, as functions
  of the clock reading and the uploaded file.
\<close>

definition folder_name :: "datetime \<Rightarrow> file_storage \<Rightarrow> string" where
  "folder_name t audio =
     (let timestamp = strftime_Ymd_HMS t
      in fst (os_path_splitext (filename audio)) @ ''_'' @ timestamp)"

definition folder_path :: "env \<Rightarrow> file_storage \<Rightarrow> path" where
  "folder_path env audio = os_path_join (STATIC_FOLDER env) [folder_name (now env) audio]"

definition file_path :: "env \<Rightarrow> file_storage \<Rightarrow> path" where
  "file_path env audio = os_path_join (folder_path env audio) [filename audio]"

definition text_filename :: "file_storage \<Rightarrow> string" where
  "text_filename audio = fst (os_path_splitext (filename audio)) @ ''_transcribed.txt''"

definition text_file_path :: "env \<Rightarrow> file_storage \<Rightarrow> path" where
  "text_file_path env audio = os_path_join (folder_path env audio) [text_filename audio]"

definition vtt_filename :: "file_storage \<Rightarrow> string" where
  "vtt_filename audio = fst (os_path_splitext (filename audio)) @ ''.vtt''"

definition vtt_file_path :: "env \<Rightarrow> file_storage \<Rightarrow> path" where
  "vtt_file_path env audio = os_path_join (folder_path env audio) [vtt_filename audio]"

text \<open>The loop over \<open>result["segments"]\<close>: one \<open>write\<close> per segment, in order.\<close>

fun write_segments :: "env \<Rightarrow> path \<Rightarrow> segment list \<Rightarrow> unit io" where
  "write_segments env p [] w = (w, Inr ())"
| "write_segments env p (segment # rest) w =
     (let start_time = format_timestamp (seg_start segment);
          end_time = format_timestamp (seg_end segment)
      in case file_write env p
                (start_time @ '' --> '' @ end_time @ [CHR 0x0A] @ seg_text segment @
                 [CHR 0x0A, CHR 0x0A]) w of
           (w1, Inl e) \<Rightarrow> (w1, Inl e)
         | (w1, Inr u) \<Rightarrow> write_segments env p rest w1)"

text \<open>
  The body of the \<open>try\<close> block. \<open>Inr\<close> is a \<open>return\<close>, \<open>Inl\<close> an exception that
  reaches the \<open>except\<close> clause.
\<close>

definition transcribe_try :: "env \<Rightarrow> request \<Rightarrow> response io" where
  "transcribe_try env req =
     (let provided_token = authorization req
      in if provided_token \<noteq> Some (HARDCODED_TOKEN env)
         then io_return (Json [(''error'', ''Invalid token'')], 401)
         else case audio_file req of
           None \<Rightarrow> io_return (Json [(''error'', ''No audio file provided'')], 400)
         | Some audio \<Rightarrow>
             io_bind (os_makedirs env (folder_path env audio)) (\<lambda>_.
             io_bind (save env audio (file_path env audio)) (\<lambda>_.
             io_bind (logger_info (''Transcribing audio file: '' @ file_path env audio)) (\<lambda>_.
             io_bind (\<lambda>w. (w, model_transcribe env (file_path env audio))) (\<lambda>result.
             let transcribed_text = result_text result in
             io_bind (open_w env (text_file_path env audio)) (\<lambda>_.
             io_bind (file_write env (text_file_path env audio) transcribed_text) (\<lambda>_.
             io_bind (open_w env (vtt_file_path env audio)) (\<lambda>_.
             io_bind (file_write env (vtt_file_path env audio)
                        (''WEBVTT'' @ [CHR 0x0A, CHR 0x0A])) (\<lambda>_.
             io_bind (write_segments env (vtt_file_path env audio) (result_segments result)) (\<lambda>_.
             io_bind (logger_info
                        (''Transcription completed for file: '' @ file_path env audio)) (\<lambda>_.
             io_return
               (Json [(''transcribed_text'', transcribed_text),
                      (''text_file_path'', text_file_path env audio),
                      (''vtt_file_path'', vtt_file_path env audio)], 200))))))))))))"

text \<open>The \<open>except Exception as e\<close> clause: log the cause, answer with a fixed body.\<close>

definition transcribe :: "env \<Rightarrow> request \<Rightarrow> world \<Rightarrow> world \<times> response" where
  "transcribe env req w =
     (case transcribe_try env req w of
        (w1, Inr resp) \<Rightarrow> (w1, resp)
      | (w1, Inl e) \<Rightarrow>
          (fst (logger_error (''Error during transcription: '' @ str_exn e) w1),
           (Json [(''error'', ''Internal server error'')], 500)))"

section \<open>The download handlers\<close>

text \<open>
  Only \<open>FileNotFoundError\<close> is caught; any other exception leaves the handler (\<open>Inl\<close>),
  and the framework answers with status 500.
\<close>

definition download_text :: "env \<Rightarrow> string \<Rightarrow> string \<Rightarrow> response io" where
  "download_text env folder fname w =
     (let text_file_path = os_path_join (STATIC_FOLDER env) [folder, fname]
      in case send_file text_file_path w of
           (w1, Inr resp) \<Rightarrow> (w1, Inr resp)
         | (w1, Inl e) \<Rightarrow>
             if exc_class_of e = FileNotFoundError
             then (fst (logger_error (''Text file not found: '' @ text_file_path) w1),
                   Inr (Json [(''error'', ''File not found'')], 404))
             else (w1, Inl e))"

definition download_vtt :: "env \<Rightarrow> string \<Rightarrow> string \<Rightarrow> response io" where
  "download_vtt env folder fname w =
     (let vtt_file_path = os_path_join (STATIC_FOLDER env) [folder, fname]
      in case send_file vtt_file_path w of
           (w1, Inr resp) \<Rightarrow> (w1, Inr resp)
         | (w1, Inl e) \<Rightarrow>
             if exc_class_of e = FileNotFoundError
             then (fst (logger_error (''VTT file not found: '' @ vtt_file_path) w1),
                   Inr (Json [(''error'', ''File not found'')], 404))
             else (w1, Inl e))"

section \<open>The specification's notions\<close>

text \<open>
  The decomposition of a seconds offset as the specification words it: \<open>seconds mod m\<close>
  is the part of \<open>seconds\<close> beyond the last whole multiple of \<open>m\<close>, and a field is the
  decimal number with zeros in front up to its width.
\<close>

definition spec_mod :: "rat \<Rightarrow> rat \<Rightarrow> rat" where
  "spec_mod x m = m * frac (x / m)"

definition spec_hours :: "rat \<Rightarrow> int" where
  "spec_hours s = \<lfloor>s / 3600\<rfloor>"

definition spec_minutes :: "rat \<Rightarrow> int" where
  "spec_minutes s = \<lfloor>spec_mod s 3600 / 60\<rfloor>"

definition spec_secs :: "rat \<Rightarrow> int" where
  "spec_secs s = \<lfloor>spec_mod s 60\<rfloor>"

definition zero_padded :: "nat \<Rightarrow> nat \<Rightarrow> string" where
  "zero_padded width n = replicate (width - length (str_nat n)) (CHR ''0'') @ str_nat n"

definition hh_mm_ss_mmm :: "nat \<Rightarrow> nat \<Rightarrow> nat \<Rightarrow> nat \<Rightarrow> string" where
  "hh_mm_ss_mmm h m s ms =
     zero_padded 2 h @ '':'' @ zero_padded 2 m @ '':'' @ zero_padded 2 s @ ''.'' @
     zero_padded 3 ms"

text \<open>Reading a decimal field back, to say which number a field denotes.\<close>

definition digit_value :: "char \<Rightarrow> nat" where
  "digit_value c = of_char c - 48"

definition decimal_value :: "string \<Rightarrow> nat" where
  "decimal_value s = foldl (\<lambda>a c. 10 * a + digit_value c) 0 s"

text \<open>
  The caption document: the header line and a blank line, then one cue block per
  segment: the timing line, the text line and a blank line.
\<close>

definition cue_block :: "segment \<Rightarrow> string" where
  "cue_block seg =
     format_timestamp (seg_start seg) @ '' --> '' @ format_timestamp (seg_end seg) @
     [CHR 0x0A] @ seg_text seg @ [CHR 0x0A] @ [CHR 0x0A]"

definition caption_document :: "segment list \<Rightarrow> string" where
  "caption_document segs = ''WEBVTT'' @ [CHR 0x0A] @ [CHR 0x0A] @ concat (map cue_block segs)"

text \<open>
  The storage names: the directory name from the stem and the clock reading down to
  the second, and the two artifact names from the stem.
\<close>

definition spec_directory_name ::
  "string \<Rightarrow> nat \<Rightarrow> nat \<Rightarrow> nat \<Rightarrow> nat \<Rightarrow> nat \<Rightarrow> nat \<Rightarrow> string" where
  "spec_directory_name stem Y M D h m s =
     stem @ ''_'' @ zero_padded 4 Y @ zero_padded 2 M @ zero_padded 2 D @ ''_'' @
     zero_padded 2 h @ zero_padded 2 m @ zero_padded 2 s"

definition stem_of :: "string \<Rightarrow> string" where
  "stem_of name = fst (os_path_splitext name)"

definition json_field :: "body \<Rightarrow> string \<Rightarrow> string option" where
  "json_field b k = (case b of Json kvs \<Rightarrow> map_of kvs k | Attachment p c \<Rightarrow> None)"

definition path_exists :: "world \<Rightarrow> path \<Rightarrow> bool" where
  "path_exists w p = (files w p \<noteq> None \<or> p \<in> dirs w)"







definition raised :: "world \<times> (exn + 'a) \<Rightarrow> exn option" where
  "raised outcome = (case snd outcome of Inl e \<Rightarrow> Some e | Inr x \<Rightarrow> None)"



section \<open>A stub engine and sample requests\<close>

definition sample_result :: whisper_result where
  "sample_result =
     \<lparr>result_text = ''hi there'',
      result_segments =
        [\<lparr>seg_start = 0, seg_end = 1.5, seg_text = ''hi''\<rparr>,
         \<lparr>seg_start = 1.5, seg_end = 3661.5, seg_text = ''there''\<rparr>]\<rparr>"

definition sample_now :: datetime where
  "sample_now =
     \<lparr>year = 2024, month = 3, day = 7, hour = 9, minute = 5, second = 2,
      microsecond = 123456\<rparr>"

definition stub_env :: env where
  "stub_env =
     \<lparr>HARDCODED_TOKEN = ''secret'', STATIC_FOLDER = ''static'', now = sample_now,
      model_transcribe = (\<lambda>p. Inr sample_result), fault = (\<lambda>w op. None)\<rparr>"


definition sample_upload :: file_storage where
  "sample_upload = \<lparr>filename = ''clip.wav'', stream = ''RIFF''\<rparr>"

definition sample_request :: request where
  "sample_request = \<lparr>authorization = Some ''secret'', audio_file = Some sample_upload\<rparr>"

definition fresh_world :: world where
  "fresh_world = \<lparr>dirs = {''static''}, files = Map.empty, log = []\<rparr>"

definition nested_world :: world where
  "nested_world =
     \<lparr>dirs = {''static'', ''static/job'', ''static/job/parts''}, files = Map.empty, log = []\<rparr>"

definition stored_world :: world where
  "stored_world =
     \<lparr>dirs = {''static'', ''static/job''},
      files = [''static/job/clip.vtt'' \<mapsto> ''WEBVTT''],
      log = []\<rparr>"

section \<open>Properties of the timestamp encoding\<close>

subsection \<open>Decimal rendering\<close>

lemma replicate_2: "replicate 2 x = [x, x]"
  by (simp add: numeral_2_eq_2)

lemma replicate_3: "replicate 3 x = [x, x, x]"
  by (simp add: numeral_3_eq_3)

lemma str_nat_digit: "n < 10 \<Longrightarrow> str_nat n = [digit_char n]"
  by (subst str_nat.simps) simp

lemma str_nat_more: "10 \<le> n \<Longrightarrow> str_nat n = str_nat (n div 10) @ [digit_char (n mod 10)]"
  by (subst str_nat.simps) simp

lemma digit_cases:
  "d < 10 \<Longrightarrow> d = 0 \<or> d = 1 \<or> d = 2 \<or> d = 3 \<or> d = 4 \<or> d = 5 \<or> d = 6 \<or> d = 7 \<or> d = 8 \<or> d = (9::nat)"
  by arith

lemma digit_char_in: "d < 10 \<Longrightarrow> digit_char d \<in> set ''0123456789''"
  unfolding digit_char_def by (rule nth_mem) simp

lemma digit_value_digit_char: "d < 10 \<Longrightarrow> digit_value (digit_char d) = d"
  using digit_cases [of d] by (auto simp: digit_value_def digit_char_def)

lemma set_str_nat: "set (str_nat n) \<subseteq> set ''0123456789''"
proof (induction n rule: str_nat.induct)
  case (1 n)
  show ?case
  proof (cases "n < 10")
    case True
    then show ?thesis using digit_char_in [of n] by (subst str_nat.simps) simp
  next
    case False
    have "n mod 10 < 10" by simp
    then have "digit_char (n mod 10) \<in> set ''0123456789''" by (rule digit_char_in)
    with False 1 show ?thesis by (subst str_nat.simps) simp
  qed
qed

lemma str_nat_no_dot: "CHR ''.'' \<notin> set (str_nat n)"
  using set_str_nat [of n] by auto

lemma decimal_value_snoc:
  "decimal_value (xs @ [c]) = 10 * decimal_value xs + digit_value c"
  by (simp add: decimal_value_def)

lemma decimal_value_str_nat: "decimal_value (str_nat n) = n"
proof (induction n rule: str_nat.induct)
  case (1 n)
  show ?case
  proof (cases "n < 10")
    case True
    then show ?thesis
      by (subst str_nat.simps) (simp add: decimal_value_def digit_value_digit_char)
  next
    case False
    with 1 have "decimal_value (str_nat (n div 10)) = n div 10" by simp
    with False show ?thesis
      by (subst str_nat.simps) (simp add: decimal_value_snoc digit_value_digit_char)
  qed
qed

lemma decimal_value_zeros: "decimal_value (replicate k (CHR ''0'') @ s) = decimal_value s"
proof -
  have "foldl (\<lambda>a c. 10 * a + digit_value c) 0 (replicate k (CHR ''0'')) = 0"
    by (induction k) (simp_all add: digit_value_def)
  then show ?thesis by (simp add: decimal_value_def)
qed

lemma decimal_value_zero_padded: "decimal_value (zero_padded w n) = n"
  by (simp add: zero_padded_def decimal_value_zeros decimal_value_str_nat)

lemma length_zero_padded: "length (zero_padded w n) = max w (length (str_nat n))"
  by (simp add: zero_padded_def)

lemma length_str_nat_100:
  assumes "n < 100"
  shows "length (str_nat n) \<le> 2"
proof -
  from assms have "n div 10 < 10" by arith
  then show ?thesis
    by (simp add: str_nat.simps [of n] str_nat.simps [of "n div 10"])
qed

lemma length_zero_padded_2: "n < 100 \<Longrightarrow> length (zero_padded 2 n) = 2"
  using length_str_nat_100 [of n] by (simp add: length_zero_padded)

lemma format_int_0_nonneg: "0 \<le> n \<Longrightarrow> format_int_0 w n = zero_padded w (nat n)"
  by (simp add: format_int_0_def zero_padded_def zero_fill_def)

lemma format_int_0_no_dot: "CHR ''.'' \<notin> set (format_int_0 w n)"
  by (simp add: format_int_0_def zero_fill_def str_nat_no_dot)

lemma zero_fill_zero_padded: "zero_fill w (str_nat n) = zero_padded w n"
  by (simp add: zero_fill_def zero_padded_def)

subsection \<open>Floating-point division below \<open>2 ^ 53\<close>\<close>

lemma ilog2_bound: "n < 2 ^ Suc k \<Longrightarrow> ilog2 n \<le> k"
proof (induction k arbitrary: n)
  case 0
  then show ?case by (simp add: ilog2.simps)
next
  case (Suc k)
  show ?case
  proof (cases "n < 2")
    case True
    then show ?thesis by (simp add: ilog2.simps)
  next
    case False
    from Suc.prems have "n < 2 * 2 ^ Suc k" by simp
    then have "n div 2 < 2 ^ Suc k" by arith
    then have "ilog2 (n div 2) \<le> k" by (rule Suc.IH)
    with False show ?thesis by (subst ilog2.simps) simp
  qed
qed

lemma round_half_even_int: "round_half_even (of_int n) = n"
  by (simp add: round_half_even_def)

lemma round_double_int:
  assumes "0 \<le> n" and "n < 2 ^ 53"
  shows "round_double (of_int n) = of_int n"
proof (cases "n = 0")
  case True
  then show ?thesis by (simp add: round_double_def)
next
  case False
  with assms have pos: "1 \<le> n" by simp
  define e where "e = ilog2 n"
  from assms have "n < 2 ^ Suc 52" by simp
  then have e: "e \<le> 52" unfolding e_def by (rule ilog2_bound)
  define j where "j = 52 - e"
  from pos have ex: "float_exponent \<bar>of_int n\<bar> = int e"
    by (simp add: float_exponent_def e_def)
  from e have u: "pow2 (int e - 52) = 1 / 2 ^ j"
    by (auto simp: pow2_def j_def nat_diff_distrib')
  have q: "(of_int n :: rat) / (1 / 2 ^ j) = of_int (n * 2 ^ j)" by simp
  have "round_double (of_int n) = of_int (round_half_even (of_int n / (1 / 2 ^ j))) * (1 / 2 ^ j)"
    using False by (simp add: round_double_def ex u Let_def)
  also have "\<dots> = of_int (n * 2 ^ j) * (1 / 2 ^ j)"
    unfolding q round_half_even_int ..
  also have "\<dots> = of_int n" by simp
  finally show ?thesis .
qed


lemma c_fmod_nonneg:
  assumes "0 \<le> x" and "0 < y"
  shows "c_fmod x y = x - y * of_int \<lfloor>x / y\<rfloor>"
  using assms by (simp add: c_fmod_def int_of_float_def)

lemma floor_mod_range:
  fixes x y :: rat
  assumes "0 < y"
  shows "0 \<le> x - y * of_int \<lfloor>x / y\<rfloor> \<and> x - y * of_int \<lfloor>x / y\<rfloor> < y"
proof -
  from assms have "x - y * of_int \<lfloor>x / y\<rfloor> = y * frac (x / y)"
    by (simp add: frac_def algebra_simps)
  with assms frac_ge_0 [of "x / y"] frac_lt_1 [of "x / y"] show ?thesis by simp
qed

lemma float_mod_nonneg:
  assumes "0 \<le> x" and "0 < y"
  shows "float_mod x y = x - y * of_int \<lfloor>x / y\<rfloor>"
proof -
  from floor_mod_range [OF assms(2), of x] have "\<not> x - y * of_int \<lfloor>x / y\<rfloor> < 0" by simp
  with assms have "sign_mismatch (c_fmod x y) y = False"
    by (simp add: c_fmod_nonneg sign_mismatch_def)
  then show ?thesis
    using assms by (simp add: float_mod_def float_divmod_def Let_def c_fmod_nonneg)
qed

lemma float_floordiv_exact:
  assumes "0 \<le> x" and "x < 2 ^ 53" and "0 < d"
  shows "float_floordiv x (of_int d) = of_int \<lfloor>x / of_int d\<rfloor>"
proof -
  define y :: rat where "y = of_int d"
  define k where "k = \<lfloor>x / y\<rfloor>"
  from assms(3) have y: "0 < y" "1 \<le> y" by (simp_all add: y_def)
  from floor_mod_range [OF y(1), of x] have r: "0 \<le> x - y * of_int k" "x - y * of_int k < y"
    by (simp_all add: k_def)
  from assms(1) y have k0: "0 \<le> k" by (simp add: k_def)
  have md: "c_fmod x y = x - y * of_int k" using assms(1) y by (simp add: c_fmod_nonneg k_def)
  have dk: "y * of_int k = of_int (d * k)" by (simp add: y_def)
  from r(1) assms(2) have "y * of_int k < 2 ^ 53" by linarith
  then have "(of_int (d * k) :: rat) < 2 ^ 53" by (simp add: dk)
  then have dk53: "d * k < 2 ^ 53" by (metis of_int_less_iff of_int_numeral of_int_power)
  from k0 assms(3) have dk0: "0 \<le> d * k" by simp
  from k0 assms(3) have "k \<le> d * k" by (simp add: mult_le_cancel_right1)
  with dk53 have k53: "k < 2 ^ 53" by linarith
  have "x - c_fmod x y = of_int (d * k)" by (simp add: md dk)
  then have s1: "round_double (x - c_fmod x y) = of_int (d * k)"
    using round_double_int [OF dk0 dk53] by simp
  have "(of_int (d * k) :: rat) / y = of_int k" using assms(3) by (simp add: y_def)
  then have s2: "round_double (round_double (x - c_fmod x y) / y) = of_int k"
    using round_double_int [OF k0 k53] by (simp add: s1)
  from r(1) have na: "sign_mismatch (c_fmod x y) y = False"
    using y by (simp add: md sign_mismatch_def)
  have "float_floordiv x y = of_int k"
    unfolding float_floordiv_def float_divmod_def Let_def
    by (simp add: na s2)
  then show ?thesis by (simp add: y_def k_def)
qed

lemma float_floordiv_3600:
  "0 \<le> x \<Longrightarrow> x < 2 ^ 53 \<Longrightarrow> float_floordiv x 3600 = of_int \<lfloor>x / 3600\<rfloor>"
  using float_floordiv_exact [of x 3600] by simp

lemma float_floordiv_60:
  "0 \<le> x \<Longrightarrow> x < 2 ^ 53 \<Longrightarrow> float_floordiv x 60 = of_int \<lfloor>x / 60\<rfloor>"
  using float_floordiv_exact [of x 60] by simp

lemma ilog2_small: "n < 2 \<Longrightarrow> ilog2 n = 0"
  by (subst ilog2.simps) simp

lemma ilog2_step: "2 \<le> n \<Longrightarrow> ilog2 n = Suc (ilog2 (n div 2))"
  by (subst ilog2.simps) simp

subsection \<open>The decomposition of a seconds offset\<close>

lemma floor_rat_numeral: "\<lfloor>numeral a / numeral b :: rat\<rfloor> = numeral a div numeral b"
  by (metis floor_divide_of_int_eq of_int_numeral)

lemma floor_rat_one_numeral: "\<lfloor>1 / numeral b :: rat\<rfloor> = 1 div numeral b"
  by (metis floor_divide_of_int_eq of_int_1 of_int_numeral)

lemma float_mod_spec: "0 \<le> x \<Longrightarrow> 0 < m \<Longrightarrow> float_mod x m = spec_mod x m"
  by (simp add: float_mod_nonneg spec_mod_def frac_def algebra_simps)

lemma spec_mod_range: "0 < m \<Longrightarrow> 0 \<le> spec_mod x m \<and> spec_mod x m < m"
  using frac_lt_1 [of "x / m"] frac_ge_0 [of "x / m"] by (simp add: spec_mod_def)

lemma spec_hours_nonneg: "0 \<le> s \<Longrightarrow> 0 \<le> spec_hours s"
  by (simp add: spec_hours_def)

lemma spec_minutes_range: "0 \<le> spec_minutes s \<and> spec_minutes s < 60"
proof -
  have "0 \<le> spec_mod s 3600 \<and> spec_mod s 3600 < 3600" by (rule spec_mod_range) simp
  then have "0 \<le> spec_mod s 3600 / 60" and "spec_mod s 3600 / 60 < 60" by simp_all
  then show ?thesis unfolding spec_minutes_def by (simp add: floor_less_iff)
qed

lemma spec_secs_range: "0 \<le> spec_secs s \<and> spec_secs s < 60"
proof -
  have "0 \<le> spec_mod s 60 \<and> spec_mod s 60 < 60" by (rule spec_mod_range) simp
  then show ?thesis unfolding spec_secs_def by (simp add: floor_less_iff)
qed

lemma hours_model:
  "0 \<le> s \<Longrightarrow> s < 2 ^ 53 \<Longrightarrow> int_of_float (float_floordiv s 3600) = spec_hours s"
  by (simp add: float_floordiv_3600 int_of_float_def spec_hours_def)

lemma minutes_model:
  assumes "0 \<le> s"
  shows "int_of_float (float_floordiv (float_mod s 3600) 60) = spec_minutes s"
proof -
  have r: "0 \<le> spec_mod s 3600 \<and> spec_mod s 3600 < 3600" by (rule spec_mod_range) simp
  then have "spec_mod s 3600 < 2 ^ 53" by simp
  with r have "float_floordiv (spec_mod s 3600) 60 = of_int \<lfloor>spec_mod s 3600 / 60\<rfloor>"
    by (simp add: float_floordiv_60)
  with assms spec_minutes_range [of s] show ?thesis
    by (simp add: float_mod_spec int_of_float_def spec_minutes_def)
qed

lemma secs_model: "0 \<le> s \<Longrightarrow> int_of_float (float_mod s 60) = spec_secs s"
  using spec_mod_range [of 60 s]
  by (simp add: int_of_float_def float_mod_spec spec_secs_def)

lemma format_int_0_3_zero: "format_int_0 3 0 = ''000''"
  by (simp add: format_int_0_def zero_fill_def str_nat.simps [of 0] digit_char_def replicate_2)

lemma format_timestamp_unfold:
  "format_timestamp s =
     format_int_0 2 (int_of_float (float_floordiv s 3600)) @ '':'' @
     format_int_0 2 (int_of_float (float_floordiv (float_mod s 3600) 60)) @ '':'' @
     format_int_0 2 (int_of_float (float_mod s 60)) @ ''.000''"
  by (simp add: format_timestamp_def Let_def format_int_0_3_zero)

lemma format_timestamp_nonneg:
  assumes "0 \<le> s"
  shows "format_timestamp s =
           format_int_0 2 (int_of_float (float_floordiv s 3600)) @ '':'' @
           zero_padded 2 (nat (spec_minutes s)) @ '':'' @
           zero_padded 2 (nat (spec_secs s)) @ ''.'' @ zero_padded 3 0"
proof -
  have ms: "format_int_0 3 0 = zero_padded 3 0"
    using format_int_0_nonneg [of 0 3] by simp
  have m: "format_int_0 2 (int_of_float (float_floordiv (float_mod s 3600) 60)) =
             zero_padded 2 (nat (spec_minutes s))"
    using spec_minutes_range [of s] assms by (simp add: minutes_model format_int_0_nonneg)
  have c: "format_int_0 2 (int_of_float (float_mod s 60)) = zero_padded 2 (nat (spec_secs s))"
    using spec_secs_range [of s] assms by (simp add: secs_model format_int_0_nonneg)
  show ?thesis
    by (simp add: format_timestamp_def Let_def m c ms)
qed

lemma format_timestamp_hours:
  assumes "0 \<le> s" and "s < 2 ^ 53"
  shows "format_int_0 2 (int_of_float (float_floordiv s 3600)) = zero_padded 2 (nat (spec_hours s))"
  using assms by (simp add: hours_model format_int_0_nonneg spec_hours_nonneg)

text \<open>
  Evaluation at a concrete offset: below \<open>2 ^ 53\<close> by the exact quotient
  (\<open>timestamp_eval\<close>), anywhere by unfolding the rounding (\<open>float_eval\<close>).
\<close>

lemmas float_eval =
  float_floordiv_def float_mod_def float_divmod_def Let_def sign_mismatch_def c_fmod_def
  int_of_float_def round_double_def float_exponent_def pow2_def round_half_even_def
  ilog2_small ilog2_step floor_rat_numeral floor_rat_one_numeral

lemmas render_eval =
  format_timestamp_def Let_def format_int_0_def zero_fill_def str_nat_digit str_nat_more
  digit_char_def replicate_2 replicate_3

lemmas timestamp_eval =
  float_floordiv_3600 float_floordiv_60 float_mod_nonneg int_of_float_def
  floor_rat_numeral floor_rat_one_numeral render_eval

lemma format_timestamp_zero: "format_timestamp 0 = ''00:00:00.000''"
  by (simp add: timestamp_eval)

text \<open>
  Claim C1 asks for the milliseconds of the original offset: \<open>format_timestamp(3661.5)\<close>
  should be \<open>01:01:01.500\<close> and \<open>format_timestamp(59.999)\<close> should be
  \<open>00:00:59.999\<close>. The function reads the rebound integer \<open>seconds\<close> instead, and
  returns \<open>.000\<close> at both inputs.
\<close>

theorem format_timestamp_drops_fraction:
  "format_timestamp 3661.5 = ''01:01:01.000'' \<and> format_timestamp 59.999 = ''00:00:59.000''"
  by (simp add: timestamp_eval)

text \<open>
  Claim C2, amended: for a non-negative offset the result is \<open>HH:MM:SS.mmm\<close> with
  \<open>minutes = floor((seconds mod 3600) / 60)\<close> and \<open>secs = floor(seconds mod 60)\<close>, each
  zero-padded to two digits (both are below 60, so exactly two digits), and a three-digit
  milliseconds field; for an offset below \<open>2 ^ 53\<close> seconds the hours field is
  \<open>floor(seconds / 3600)\<close>, zero-padded to at least two digits and never cut, so that it
  denotes the hours exactly (no wrap-around at 100 hours). The offset \<open>0.0\<close> gives
  \<open>00:00:00.000\<close>.
\<close>

theorem format_timestamp_fields:
  assumes "0 \<le> s"
  shows "(\<exists>hh ms. ms < 1000 \<and>
            format_timestamp s =
              hh @ '':'' @ zero_padded 2 (nat (spec_minutes s)) @ '':'' @
              zero_padded 2 (nat (spec_secs s)) @ ''.'' @ zero_padded 3 ms \<and>
            (s < 2 ^ 53 \<longrightarrow>
               hh = zero_padded 2 (nat (spec_hours s)) \<and>
               format_timestamp s =
                 hh_mm_ss_mmm (nat (spec_hours s)) (nat (spec_minutes s)) (nat (spec_secs s)) ms)) \<and>
         0 \<le> spec_hours s \<and>
         0 \<le> spec_minutes s \<and> spec_minutes s < 60 \<and>
         0 \<le> spec_secs s \<and> spec_secs s < 60 \<and>
         length (zero_padded 2 (nat (spec_minutes s))) = 2 \<and>
         length (zero_padded 2 (nat (spec_secs s))) = 2 \<and>
         2 \<le> length (zero_padded 2 (nat (spec_hours s))) \<and>
         decimal_value (zero_padded 2 (nat (spec_hours s))) = nat (spec_hours s) \<and>
         format_timestamp 0 = ''00:00:00.000''"
proof -
  let ?hh = "format_int_0 2 (int_of_float (float_floordiv s 3600))"
  have "(0::nat) < 1000 \<and>
        format_timestamp s =
          ?hh @ '':'' @ zero_padded 2 (nat (spec_minutes s)) @ '':'' @
          zero_padded 2 (nat (spec_secs s)) @ ''.'' @ zero_padded 3 0 \<and>
        (s < 2 ^ 53 \<longrightarrow>
           ?hh = zero_padded 2 (nat (spec_hours s)) \<and>
           format_timestamp s =
             hh_mm_ss_mmm (nat (spec_hours s)) (nat (spec_minutes s)) (nat (spec_secs s)) 0)"
    using format_timestamp_nonneg [OF assms] format_timestamp_hours [OF assms]
    by (simp add: hh_mm_ss_mmm_def)
  then have "\<exists>hh ms. ms < 1000 \<and>
            format_timestamp s =
              hh @ '':'' @ zero_padded 2 (nat (spec_minutes s)) @ '':'' @
              zero_padded 2 (nat (spec_secs s)) @ ''.'' @ zero_padded 3 ms \<and>
            (s < 2 ^ 53 \<longrightarrow>
               hh = zero_padded 2 (nat (spec_hours s)) \<and>
               format_timestamp s =
                 hh_mm_ss_mmm (nat (spec_hours s)) (nat (spec_minutes s)) (nat (spec_secs s)) ms)"
    by blast
  moreover have "0 \<le> spec_hours s" using assms by (rule spec_hours_nonneg)
  moreover have "length (zero_padded 2 (nat (spec_minutes s))) = 2"
    using spec_minutes_range [of s] by (intro length_zero_padded_2) linarith
  moreover have "length (zero_padded 2 (nat (spec_secs s))) = 2"
    using spec_secs_range [of s] by (intro length_zero_padded_2) linarith
  moreover have "2 \<le> length (zero_padded 2 (nat (spec_hours s)))"
    by (simp add: length_zero_padded)
  ultimately show ?thesis
    using spec_minutes_range [of s] spec_secs_range [of s]
    by (simp add: decimal_value_zero_padded format_timestamp_zero)
qed

text \<open>
  The claim as stated gives the hours as \<open>floor(seconds / 3600)\<close> for every non-negative
  float, with no upper bound. At \<open>1e22\<close>, a float, the code's hours field is
  \<open>2777777777777777664\<close>, and the floor is \<open>2777777777777777777\<close>: the quotient of the
  floating-point division has 53 significant bits.
\<close>

theorem format_timestamp_hours_counterexample:
  "(0::rat) \<le> 10000000000000000000000 \<and>
   format_timestamp 10000000000000000000000 = ''2777777777777777664:46:40.000'' \<and>
   spec_hours 10000000000000000000000 = 2777777777777777777 \<and>
   zero_padded 2 (nat (spec_hours 10000000000000000000000)) = ''2777777777777777777''"
proof -
  have h: "float_floordiv 10000000000000000000000 3600 = 2777777777777777664"
    by (simp add: float_eval)
  have m: "float_mod 10000000000000000000000 3600 = 2800"
    by (simp add: float_eval)
  have m': "float_floordiv 2800 60 = 46"
    by (simp add: float_floordiv_60 floor_rat_numeral)
  have c: "float_mod 10000000000000000000000 60 = 40"
    by (simp add: float_eval)
  have f: "format_timestamp 10000000000000000000000 = ''2777777777777777664:46:40.000''"
    by (simp add: h m m' c int_of_float_def render_eval)
  have s: "spec_hours 10000000000000000000000 = 2777777777777777777"
    by (simp add: spec_hours_def floor_rat_numeral)
  have z: "zero_padded 2 2777777777777777777 = ''2777777777777777777''"
    by (simp add: zero_padded_def str_nat_digit str_nat_more digit_char_def)
  from f s z show ?thesis by simp
qed

theorem format_timestamp_fields_witness:
  "(0::rat) \<le> 360000.25 \<and> (360000.25::rat) < 2 ^ 53 \<and>
   format_timestamp 360000.25 = ''100:00:00.000'' \<and>
   spec_hours 360000.25 = 100 \<and> decimal_value ''100'' = 100"
proof -
  have h: "(0::rat) \<le> 360000.25" by simp
  have b: "(360000.25::rat) < 2 ^ 53" by simp
  have e: "format_timestamp 360000.25 = ''100:00:00.000''"
    by (simp add: timestamp_eval)
  have "spec_hours 360000.25 = 100" by (simp add: spec_hours_def floor_rat_numeral)
  moreover have "zero_padded 2 100 = ''100''"
    by (simp add: zero_padded_def str_nat_digit str_nat_more digit_char_def)
  ultimately show ?thesis
    using format_timestamp_fields [OF h] e b by simp
qed

text \<open>
  Claim C10: whatever the offset, the milliseconds field of the result, the part after
  the only dot, is \<open>000\<close>.
\<close>

theorem format_timestamp_millis_always_zero:
  "\<exists>pre. format_timestamp s = pre @ ''.000'' \<and> CHR ''.'' \<notin> set pre"
proof -
  let ?pre = "format_int_0 2 (int_of_float (float_floordiv s 3600)) @ '':'' @
     format_int_0 2 (int_of_float (float_floordiv (float_mod s 3600) 60)) @ '':'' @
     format_int_0 2 (int_of_float (float_mod s 60))"
  have "format_timestamp s = ?pre @ ''.000''"
    by (simp add: format_timestamp_unfold)
  moreover have "CHR ''.'' \<notin> set ?pre"
    by (simp add: format_int_0_no_dot)
  ultimately show ?thesis by blast
qed

section \<open>Effects of the file-system calls\<close>

lemma io_bind_InrE:
  assumes "io_bind m k w = (w', Inr y)"
  obtains w1 x where "m w = (w1, Inr x)" and "k x w1 = (w', Inr y)"
  using assms by (auto simp: io_bind_def split: prod.splits sum.splits)

lemma os_makedirs_Inr:
  "os_makedirs env p w = (w', Inr u) \<Longrightarrow> w' = w\<lparr>dirs := dirs w \<union> set (path_ancestors p)\<rparr>"
  by (auto simp: os_makedirs_def split: option.splits if_splits)

lemma open_w_Inr:
  "open_w env p w = (w', Inr u) \<Longrightarrow> w' = w\<lparr>files := (files w)(p \<mapsto> [])\<rparr>"
  by (auto simp: open_w_def split: option.splits if_splits)

lemma file_write_Inr:
  "file_write env p s w = (w', Inr u) \<Longrightarrow> files w p = Some c \<Longrightarrow>
   w' = w\<lparr>files := (files w)(p \<mapsto> c @ s)\<rparr>"
  by (auto simp: file_write_def split: option.splits)

lemma save_Inr:
  assumes "save env f dst w = (w', Inr u)"
  shows "w' = w\<lparr>files := (files w)(dst \<mapsto> stream f)\<rparr>"
proof -
  from assms obtain w1 x where o: "open_w env dst w = (w1, Inr x)"
    and wr: "file_write env dst (stream f) w1 = (w', Inr u)"
    unfolding save_def by (rule io_bind_InrE)
  from o have w1: "w1 = w\<lparr>files := (files w)(dst \<mapsto> [])\<rparr>" by (rule open_w_Inr)
  then have "files w1 dst = Some []" by simp
  with wr have "w' = w1\<lparr>files := (files w1)(dst \<mapsto> [] @ stream f)\<rparr>" by (rule file_write_Inr)
  with w1 show ?thesis by simp
qed

lemma write_segments_Inr:
  "write_segments env p segs w = (w', Inr u) \<Longrightarrow> files w p = Some c \<Longrightarrow>
   w' = w\<lparr>files := (files w)(p \<mapsto> c @ concat (map cue_block segs))\<rparr>"
proof (induction segs arbitrary: w c)
  case Nil
  then show ?case by (simp add: fun_upd_idem)
next
  case (Cons seg segs)
  from Cons.prems(1) obtain w1 where
    wr: "file_write env p (cue_block seg) w = (w1, Inr ())" and
    rest: "write_segments env p segs w1 = (w', Inr u)"
    by (auto simp: cue_block_def Let_def split: prod.splits sum.splits)
  from wr Cons.prems(2) have w1: "w1 = w\<lparr>files := (files w)(p \<mapsto> c @ cue_block seg)\<rparr>"
    by (rule file_write_Inr)
  then have "files w1 p = Some (c @ cue_block seg)" by simp
  with rest have "w' = w1\<lparr>files := (files w1)(p \<mapsto> (c @ cue_block seg) @ concat (map cue_block segs))\<rparr>"
    by (rule Cons.IH)
  also have "\<dots> = w\<lparr>files := (files w)(p \<mapsto> c @ concat (map cue_block (seg # segs)))\<rparr>"
    unfolding w1 by simp
  finally show ?case .
qed


lemma transcribe_try_200:
  assumes run: "transcribe_try env req w = (w', Inr (b, 200))"
    and audio: "audio_file req = Some a"
  obtains result where
    "model_transcribe env (file_path env a) = Inr result"
    "b = Json [(''transcribed_text'', result_text result),
               (''text_file_path'', text_file_path env a),
               (''vtt_file_path'', vtt_file_path env a)]"
    "dirs w' = dirs w \<union> set (path_ancestors (folder_path env a))"
    "files w' = (files w)(file_path env a \<mapsto> stream a,
                          text_file_path env a \<mapsto> result_text result,
                          vtt_file_path env a \<mapsto> caption_document (result_segments result))"
    "log w' = log w @ [(INFO, ''Transcribing audio file: '' @ file_path env a),
                       (INFO, ''Transcription completed for file: '' @ file_path env a)]"
proof -
  have auth: "authorization req = Some (HARDCODED_TOKEN env)"
  proof (rule ccontr)
    assume "authorization req \<noteq> Some (HARDCODED_TOKEN env)"
    with run show False by (simp add: transcribe_try_def io_return_def)
  qed
  let ?k9 = "\<lambda>result (u::unit). io_bind (logger_info (''Transcription completed for file: '' @ file_path env a)) (\<lambda>_.
             io_return
               (Json [(''transcribed_text'', result_text result),
                      (''text_file_path'', text_file_path env a),
                      (''vtt_file_path'', vtt_file_path env a)], 200::nat))"
  let ?k8 = "\<lambda>result (u::unit). io_bind (write_segments env (vtt_file_path env a) (result_segments result)) (?k9 result)"
  let ?k7 = "\<lambda>result (u::unit). io_bind (file_write env (vtt_file_path env a) (''WEBVTT'' @ [CHR 0x0A, CHR 0x0A])) (?k8 result)"
  let ?k6 = "\<lambda>result (u::unit). io_bind (open_w env (vtt_file_path env a)) (?k7 result)"
  let ?k5 = "\<lambda>result (u::unit). io_bind (file_write env (text_file_path env a) (result_text result)) (?k6 result)"
  let ?k4 = "\<lambda>result. io_bind (open_w env (text_file_path env a)) (?k5 result)"
  let ?k3 = "\<lambda>u::unit. io_bind (\<lambda>w. (w, model_transcribe env (file_path env a))) ?k4"
  let ?k2 = "\<lambda>u::unit. io_bind (logger_info (''Transcribing audio file: '' @ file_path env a)) ?k3"
  let ?k1 = "\<lambda>u::unit. io_bind (save env a (file_path env a)) ?k2"
  from run auth audio
  have "io_bind (os_makedirs env (folder_path env a)) ?k1 w = (w', Inr (b, 200))"
    by (simp add: transcribe_try_def Let_def)
  then obtain w1 u1 where s1: "os_makedirs env (folder_path env a) w = (w1, Inr u1)"
    and c1: "?k1 u1 w1 = (w', Inr (b, 200))" by (rule io_bind_InrE)
  from c1 obtain w2 u2 where s2: "save env a (file_path env a) w1 = (w2, Inr u2)"
    and c2: "?k2 u2 w2 = (w', Inr (b, 200))" by (rule io_bind_InrE)
  from c2 obtain w3 u3 where
    s3: "logger_info (''Transcribing audio file: '' @ file_path env a) w2 = (w3, Inr u3)"
    and c3: "?k3 u3 w3 = (w', Inr (b, 200))" by (rule io_bind_InrE)
  from c3 obtain w4 result where s4: "(w3, model_transcribe env (file_path env a)) = (w4, Inr result)"
    and c4: "?k4 result w4 = (w', Inr (b, 200))" by (rule io_bind_InrE)
  from c4 obtain w5 u5 where s5: "open_w env (text_file_path env a) w4 = (w5, Inr u5)"
    and c5: "?k5 result u5 w5 = (w', Inr (b, 200))" by (rule io_bind_InrE)
  from c5 obtain w6 u6 where
    s6: "file_write env (text_file_path env a) (result_text result) w5 = (w6, Inr u6)"
    and c6: "?k6 result u6 w6 = (w', Inr (b, 200))" by (rule io_bind_InrE)
  from c6 obtain w7 u7 where s7: "open_w env (vtt_file_path env a) w6 = (w7, Inr u7)"
    and c7: "?k7 result u7 w7 = (w', Inr (b, 200))" by (rule io_bind_InrE)
  from c7 obtain w8 u8 where
    s8: "file_write env (vtt_file_path env a) (''WEBVTT'' @ [CHR 0x0A, CHR 0x0A]) w7 = (w8, Inr u8)"
    and c8: "?k8 result u8 w8 = (w', Inr (b, 200))" by (rule io_bind_InrE)
  from c8 obtain w9 u9 where
    s9: "write_segments env (vtt_file_path env a) (result_segments result) w8 = (w9, Inr u9)"
    and c9: "?k9 result u9 w9 = (w', Inr (b, 200))" by (rule io_bind_InrE)
  from c9 obtain w10 u10 where
    s10: "logger_info (''Transcription completed for file: '' @ file_path env a) w9 = (w10, Inr u10)"
    and c10: "io_return
               (Json [(''transcribed_text'', result_text result),
                      (''text_file_path'', text_file_path env a),
                      (''vtt_file_path'', vtt_file_path env a)], 200::nat) w10 = (w', Inr (b, 200))"
    by (rule io_bind_InrE)
  have e1: "w1 = w\<lparr>dirs := dirs w \<union> set (path_ancestors (folder_path env a))\<rparr>"
    using s1 by (rule os_makedirs_Inr)
  have e2: "w2 = w1\<lparr>files := (files w1)(file_path env a \<mapsto> stream a)\<rparr>"
    using s2 by (rule save_Inr)
  have e3: "w3 = w2\<lparr>log := log w2 @ [(INFO, ''Transcribing audio file: '' @ file_path env a)]\<rparr>"
    using s3 by (simp add: logger_info_def)
  have e4: "w4 = w3" and res: "model_transcribe env (file_path env a) = Inr result"
    using s4 by simp_all
  have e5: "w5 = w4\<lparr>files := (files w4)(text_file_path env a \<mapsto> [])\<rparr>"
    using s5 by (rule open_w_Inr)
  then have "files w5 (text_file_path env a) = Some []" by simp
  with s6 have e6: "w6 = w5\<lparr>files := (files w5)(text_file_path env a \<mapsto> [] @ result_text result)\<rparr>"
    by (rule file_write_Inr)
  have e7: "w7 = w6\<lparr>files := (files w6)(vtt_file_path env a \<mapsto> [])\<rparr>"
    using s7 by (rule open_w_Inr)
  then have "files w7 (vtt_file_path env a) = Some []" by simp
  with s8 have e8: "w8 = w7\<lparr>files := (files w7)(vtt_file_path env a \<mapsto> [] @ ''WEBVTT'' @ [CHR 0x0A, CHR 0x0A])\<rparr>"
    by (rule file_write_Inr)
  then have "files w8 (vtt_file_path env a) = Some (''WEBVTT'' @ [CHR 0x0A, CHR 0x0A])" by simp
  with s9 have e9: "w9 = w8\<lparr>files := (files w8)(vtt_file_path env a \<mapsto>
      (''WEBVTT'' @ [CHR 0x0A, CHR 0x0A]) @ concat (map cue_block (result_segments result)))\<rparr>"
    by (rule write_segments_Inr)
  have e10: "w10 = w9\<lparr>log := log w9 @ [(INFO, ''Transcription completed for file: '' @ file_path env a)]\<rparr>"
    using s10 by (simp add: logger_info_def)
  have e11: "w' = w10" and body: "b = Json [(''transcribed_text'', result_text result),
               (''text_file_path'', text_file_path env a),
               (''vtt_file_path'', vtt_file_path env a)]"
    using c10 by (simp_all add: io_return_def)
  have d: "dirs w' = dirs w \<union> set (path_ancestors (folder_path env a))"
    by (simp add: e11 e10 e9 e8 e7 e6 e5 e4 e3 e2 e1)
  have l: "log w' = log w @ [(INFO, ''Transcribing audio file: '' @ file_path env a),
                       (INFO, ''Transcription completed for file: '' @ file_path env a)]"
    by (simp add: e11 e10 e9 e8 e7 e6 e5 e4 e3 e2 e1)
  have f: "files w' = (files w)(file_path env a \<mapsto> stream a,
                          text_file_path env a \<mapsto> result_text result,
                          vtt_file_path env a \<mapsto> caption_document (result_segments result))"
    by (simp add: e11 e10 e9 e8 e7 e6 e5 e4 e3 e2 e1 caption_document_def)
  from res body d f l show ?thesis by (rule that)
qed


section \<open>The sample names\<close>

lemma splitext_clip: "os_path_splitext ''clip.wav'' = (''clip'', ''.wav'')"
  by (simp add: os_path_splitext_def)

lemma sample_filename: "filename sample_upload = ''clip.wav''"
  by (simp add: sample_upload_def)

lemma strftime_sample: "strftime_Ymd_HMS sample_now = ''20240307_090502''"
  by (simp add: strftime_Ymd_HMS_def sample_now_def zero_fill_def str_nat_digit str_nat_more digit_char_def)

lemma sample_folder_path: "folder_path stub_env sample_upload = ''static/clip_20240307_090502''"
  by (simp add: folder_path_def folder_name_def stub_env_def sample_filename splitext_clip
      strftime_sample os_path_join_def join_step_def)

lemma sample_file_path: "file_path stub_env sample_upload = ''static/clip_20240307_090502/clip.wav''"
  by (simp add: file_path_def sample_folder_path sample_filename os_path_join_def join_step_def)

lemma sample_text_file_path:
  "text_file_path stub_env sample_upload = ''static/clip_20240307_090502/clip_transcribed.txt''"
  by (simp add: text_file_path_def text_filename_def sample_folder_path sample_filename
      splitext_clip os_path_join_def join_step_def)

lemma sample_vtt_file_path:
  "vtt_file_path stub_env sample_upload = ''static/clip_20240307_090502/clip.vtt''"
  by (simp add: vtt_file_path_def vtt_filename_def sample_folder_path sample_filename
      splitext_clip os_path_join_def join_step_def)

lemma sample_ancestors:
  "set (path_ancestors ''static/clip_20240307_090502'') = {''static'', ''static/clip_20240307_090502''}"
  by (simp add: path_ancestors_def proper_ancestors_def upt_rec) 


section \<open>Nothing is removed\<close>














section \<open>The successful run\<close>

lemma transcribe_200:
  assumes "transcribe env req w = (w', (b, 200))"
  shows "transcribe_try env req w = (w', Inr (b, 200))"
  using assms by (auto simp: transcribe_def split: prod.splits sum.splits)

lemma join_step_suffix_neq:
  assumes "x \<noteq> y" and "take 1 x \<noteq> ''/''" and "take 1 y \<noteq> ''/''"
  shows "join_step d (s @ x) \<noteq> join_step d (s @ y)"
proof (cases s)
  case Nil
  with assms show ?thesis by (simp add: join_step_def)
next
  case (Cons c cs)
  with assms show ?thesis by (simp add: join_step_def)
qed

lemma text_vtt_paths_differ: "text_file_path env a \<noteq> vtt_file_path env a"
  unfolding text_file_path_def vtt_file_path_def text_filename_def vtt_filename_def os_path_join_def
  using join_step_suffix_neq [of "''_transcribed.txt''" "''.vtt''"] by simp



section \<open>The sample runs\<close>

lemma stub_env_fields:
  "HARDCODED_TOKEN stub_env = ''secret''"
  "STATIC_FOLDER stub_env = ''static''"
  "fault stub_env w op = None"
  "model_transcribe stub_env p = Inr sample_result"
  by (simp_all add: stub_env_def)


lemma sample_request_fields:
  "authorization sample_request = Some ''secret''"
  "audio_file sample_request = Some sample_upload"
  by (simp_all add: sample_request_def)

lemma sample_stream: "stream sample_upload = ''RIFF''"
  by (simp add: sample_upload_def)

lemma sample_caption_document:
  "caption_document (result_segments sample_result) =
     ''WEBVTT'' @ [CHR 0x0A, CHR 0x0A] @
     ''00:00:00.000 --> 00:00:01.000'' @ [CHR 0x0A] @ ''hi'' @ [CHR 0x0A, CHR 0x0A] @
     ''00:00:01.000 --> 01:01:01.000'' @ [CHR 0x0A] @ ''there'' @ [CHR 0x0A, CHR 0x0A]"
  by (simp add: caption_document_def cue_block_def sample_result_def timestamp_eval)

lemmas sample_eval =
  io_bind_def io_return_def os_makedirs_def save_def open_w_def file_write_def logger_info_def
  logger_error_def stub_env_fields sample_request_fields sample_folder_path sample_file_path
  sample_text_file_path sample_vtt_file_path sample_ancestors sample_stream

lemma sample_write_segments:
  "fault env = (\<lambda>w op. None) \<Longrightarrow> \<exists>w'. write_segments env p segs w = (w', Inr ())"
  by (induction segs arbitrary: w) (simp_all add: file_write_def Let_def)

lemma sample_run_status: "snd (snd (transcribe stub_env sample_request fresh_world)) = 200"
proof -
  have "fault stub_env = (\<lambda>w op. None)" by (simp add: stub_env_def)
  from sample_write_segments [OF this]
  have ws: "\<And>p segs w. \<exists>w'. write_segments stub_env p segs w = (w', Inr ())" by blast
  obtain w8 where "write_segments stub_env ''static/clip_20240307_090502/clip.vtt''
      (result_segments sample_result)
      (fresh_world\<lparr>dirs := dirs fresh_world \<union> {''static'', ''static/clip_20240307_090502''},
         files := (files fresh_world)(''static/clip_20240307_090502/clip.wav'' \<mapsto> ''RIFF'',
           ''static/clip_20240307_090502/clip_transcribed.txt'' \<mapsto> result_text sample_result,
           ''static/clip_20240307_090502/clip.vtt'' \<mapsto> ''WEBVTT'' @ [CHR 0x0A, CHR 0x0A]),
         log := log fresh_world @
           [(INFO, ''Transcribing audio file: static/clip_20240307_090502/clip.wav'')]\<rparr>) = (w8, Inr ())"
    using ws by blast
  then show ?thesis
    by (simp add: transcribe_def transcribe_try_def Let_def sample_eval fresh_world_def)
qed


lemma sample_run:
  "transcribe stub_env sample_request fresh_world =
     (fst (transcribe stub_env sample_request fresh_world),
      (fst (snd (transcribe stub_env sample_request fresh_world)), 200))"
  using sample_run_status by (metis prod.collapse)



section \<open>The failing run\<close>





lemma raised_Inl: "raised (w, Inl e) = Some e"
  by (simp add: raised_def)





section \<open>Properties of the transcription handler\<close>

text \<open>
  Claim C3: when a request succeeds, the caption file holds the header \<open>WEBVTT\<close> and a
  blank line, followed, for each segment of the engine's result in order, by one cue block:
  the line \<open>start --> end\<close> with both offsets rendered by \<open>format_timestamp\<close>, the
  segment text on the next line, and a blank line (also after the last cue).
\<close>

theorem caption_document_written:
  assumes "transcribe env req w = (w', (b, 200))"
    and "audio_file req = Some audio"
    and "model_transcribe env (file_path env audio) = Inr result"
  shows "files w' (vtt_file_path env audio) = Some (caption_document (result_segments result))"
proof -
  from assms(1) have "transcribe_try env req w = (w', Inr (b, 200))" by (rule transcribe_200)
  from this assms(2) obtain r where
    "model_transcribe env (file_path env audio) = Inr r" and
    "files w' = (files w)(file_path env audio \<mapsto> stream audio,
                          text_file_path env audio \<mapsto> result_text r,
                          vtt_file_path env audio \<mapsto> caption_document (result_segments r))"
    by (rule transcribe_try_200)
  with assms(3) show ?thesis by simp
qed

theorem caption_document_written_witness:
  "files (fst (transcribe stub_env sample_request fresh_world))
     ''static/clip_20240307_090502/clip.vtt'' =
   Some (''WEBVTT'' @ [CHR 0x0A, CHR 0x0A] @
     ''00:00:00.000 --> 00:00:01.000'' @ [CHR 0x0A] @ ''hi'' @ [CHR 0x0A, CHR 0x0A] @
     ''00:00:01.000 --> 01:01:01.000'' @ [CHR 0x0A] @ ''there'' @ [CHR 0x0A, CHR 0x0A])"
  using caption_document_written [OF sample_run sample_request_fields(2) stub_env_fields(4)]
  by (simp only: sample_vtt_file_path sample_caption_document)

text \<open>
  Claim C4: when a request succeeds, the transcript file holds the engine's transcript
  string as it is, and the \<open>transcribed_text\<close> field of the response is that same string.
\<close>

theorem transcript_verbatim:
  assumes "transcribe env req w = (w', (b, 200))"
    and "audio_file req = Some audio"
    and "model_transcribe env (file_path env audio) = Inr result"
  shows "files w' (text_file_path env audio) = Some (result_text result) \<and>
         json_field b ''transcribed_text'' = Some (result_text result)"
proof -
  from assms(1) have "transcribe_try env req w = (w', Inr (b, 200))" by (rule transcribe_200)
  from this assms(2) obtain r where
    r: "model_transcribe env (file_path env audio) = Inr r" and
    b: "b = Json [(''transcribed_text'', result_text r),
               (''text_file_path'', text_file_path env audio),
               (''vtt_file_path'', vtt_file_path env audio)]" and
    f: "files w' = (files w)(file_path env audio \<mapsto> stream audio,
                          text_file_path env audio \<mapsto> result_text r,
                          vtt_file_path env audio \<mapsto> caption_document (result_segments r))"
    by (rule transcribe_try_200)
  from r assms(3) have "r = result" by simp
  with b f text_vtt_paths_differ [of env audio] show ?thesis
    by (simp add: json_field_def)
qed

theorem transcript_verbatim_witness:
  "files (fst (transcribe stub_env sample_request fresh_world))
     ''static/clip_20240307_090502/clip_transcribed.txt'' = Some ''hi there'' \<and>
   json_field (fst (snd (transcribe stub_env sample_request fresh_world))) ''transcribed_text'' =
     Some ''hi there''"
  using transcript_verbatim [OF sample_run sample_request_fields(2) stub_env_fields(4)]
  by (simp add: sample_text_file_path sample_result_def)

text \<open>
  Claim C5: a request whose \<open>Authorization\<close> header is absent or is not exactly the
  configured secret is answered with status 401, and the world is left as it was: no
  directory is created, no file is written, nothing is logged.
\<close>

theorem invalid_token_unauthorized:
  assumes "authorization req \<noteq> Some (HARDCODED_TOKEN env)"
  shows "transcribe env req w = (w, (Json [(''error'', ''Invalid token'')], 401))"
  using assms by (simp add: transcribe_def transcribe_try_def io_return_def)

theorem invalid_token_unauthorized_witness:
  "transcribe stub_env (sample_request\<lparr>authorization := Some ''Secret''\<rparr>) fresh_world =
     (fresh_world, (Json [(''error'', ''Invalid token'')], 401)) \<and>
   transcribe stub_env (sample_request\<lparr>authorization := None\<rparr>) fresh_world =
     (fresh_world, (Json [(''error'', ''Invalid token'')], 401))"
proof -
  have a: "authorization (sample_request\<lparr>authorization := Some ''Secret''\<rparr>) \<noteq>
             Some (HARDCODED_TOKEN stub_env)"
    by (simp add: stub_env_fields)
  have b: "authorization (sample_request\<lparr>authorization := None\<rparr>) \<noteq>
             Some (HARDCODED_TOKEN stub_env)"
    by simp
  from invalid_token_unauthorized [OF a] invalid_token_unauthorized [OF b]
  show ?thesis by simp
qed

text \<open>
  Claim C6: a request with the right token and no \<open>audio_file\<close> part is answered with
  status 400, and the world is left as it was.
\<close>

theorem missing_audio_bad_request:
  assumes "authorization req = Some (HARDCODED_TOKEN env)"
    and "audio_file req = None"
  shows "transcribe env req w = (w, (Json [(''error'', ''No audio file provided'')], 400))"
  using assms by (simp add: transcribe_def transcribe_try_def io_return_def)

theorem missing_audio_bad_request_witness:
  "transcribe stub_env (sample_request\<lparr>audio_file := None\<rparr>) fresh_world =
     (fresh_world, (Json [(''error'', ''No audio file provided'')], 400))"
proof -
  have a: "authorization (sample_request\<lparr>audio_file := None\<rparr>) = Some (HARDCODED_TOKEN stub_env)"
    by (simp add: stub_env_fields sample_request_fields)
  have b: "audio_file (sample_request\<lparr>audio_file := None\<rparr>) = None" by simp
  from missing_audio_bad_request [OF a b] show ?thesis by simp
qed

text \<open>
  Claim C7: the directory name is the stem of the uploaded file name, an underscore and
  the clock reading as \<open>YYYYMMDD_HHMMSS\<close>; the artifacts are \<open>stem_transcribed.txt\<close> and
  \<open>stem.vtt\<close> inside that directory under the storage root. The names are functions of the
  stem and of the clock reading down to the second only. A successful request has
  created that directory, written both artifacts there and reports their paths.
\<close>

theorem storage_location:
  assumes "stem = stem_of (filename audio)"
    and "d = os_path_join (STATIC_FOLDER env)
               [spec_directory_name stem (year (now env)) (month (now env)) (day (now env))
                  (hour (now env)) (minute (now env)) (second (now env))]"
  shows "folder_name (now env) audio =
           spec_directory_name stem (year (now env)) (month (now env)) (day (now env))
             (hour (now env)) (minute (now env)) (second (now env)) \<and>
         folder_path env audio = d \<and>
         text_file_path env audio = os_path_join d [stem @ ''_transcribed.txt''] \<and>
         vtt_file_path env audio = os_path_join d [stem @ ''.vtt''] \<and>
         (transcribe env req w = (w', (b, 200)) \<longrightarrow> audio_file req = Some audio \<longrightarrow>
            d \<in> dirs w' \<and>
            json_field b ''text_file_path'' = Some (os_path_join d [stem @ ''_transcribed.txt'']) \<and>
            json_field b ''vtt_file_path'' = Some (os_path_join d [stem @ ''.vtt'']) \<and>
            files w' (os_path_join d [stem @ ''_transcribed.txt'']) \<noteq> None \<and>
            files w' (os_path_join d [stem @ ''.vtt'']) \<noteq> None)"
proof -
  have fn: "folder_name (now env) audio =
              spec_directory_name stem (year (now env)) (month (now env)) (day (now env))
                (hour (now env)) (minute (now env)) (second (now env))"
    by (simp add: folder_name_def spec_directory_name_def strftime_Ymd_HMS_def
        zero_fill_zero_padded assms(1) stem_of_def)
  then have d: "folder_path env audio = d" by (simp add: folder_path_def assms(2))
  have t: "text_file_path env audio = os_path_join d [stem @ ''_transcribed.txt'']"
    by (simp add: d [symmetric] text_file_path_def text_filename_def assms(1) stem_of_def)
  have v: "vtt_file_path env audio = os_path_join d [stem @ ''.vtt'']"
    by (simp add: d [symmetric] vtt_file_path_def vtt_filename_def assms(1) stem_of_def)
  have run: "d \<in> dirs w' \<and>
            json_field b ''text_file_path'' = Some (text_file_path env audio) \<and>
            json_field b ''vtt_file_path'' = Some (vtt_file_path env audio) \<and>
            files w' (text_file_path env audio) \<noteq> None \<and>
            files w' (vtt_file_path env audio) \<noteq> None"
    if ok: "transcribe env req w = (w', (b, 200))" and au: "audio_file req = Some audio"
  proof -
    from ok have "transcribe_try env req w = (w', Inr (b, 200))" by (rule transcribe_200)
    from this au obtain r where
      "model_transcribe env (file_path env audio) = Inr r" and
      b: "b = Json [(''transcribed_text'', result_text r),
                 (''text_file_path'', text_file_path env audio),
                 (''vtt_file_path'', vtt_file_path env audio)]" and
      dr: "dirs w' = dirs w \<union> set (path_ancestors (folder_path env audio))" and
      f: "files w' = (files w)(file_path env audio \<mapsto> stream audio,
                            text_file_path env audio \<mapsto> result_text r,
                            vtt_file_path env audio \<mapsto> caption_document (result_segments r))"
      by (rule transcribe_try_200)
    have "d \<in> dirs w'" by (simp add: dr d path_ancestors_def)
    moreover have "json_field b ''text_file_path'' = Some (text_file_path env audio)"
      and "json_field b ''vtt_file_path'' = Some (vtt_file_path env audio)"
      by (simp_all add: b json_field_def)
    moreover have "files w' (text_file_path env audio) \<noteq> None"
      and "files w' (vtt_file_path env audio) \<noteq> None"
      by (simp_all add: f)
    ultimately show ?thesis by simp
  qed
  from fn d t v run show ?thesis by (simp only: t [symmetric] v [symmetric]) blast
qed

theorem storage_location_witness:
  "folder_path stub_env sample_upload = ''static/clip_20240307_090502'' \<and>
   ''static/clip_20240307_090502'' \<in> dirs (fst (transcribe stub_env sample_request fresh_world)) \<and>
   json_field (fst (snd (transcribe stub_env sample_request fresh_world))) ''text_file_path'' =
     Some ''static/clip_20240307_090502/clip_transcribed.txt'' \<and>
   json_field (fst (snd (transcribe stub_env sample_request fresh_world))) ''vtt_file_path'' =
     Some ''static/clip_20240307_090502/clip.vtt''"
proof -
  have stem: "''clip'' = stem_of (filename sample_upload)"
    by (simp add: stem_of_def sample_filename splitext_clip)
  have d: "''static/clip_20240307_090502'' =
           os_path_join (STATIC_FOLDER stub_env)
             [spec_directory_name ''clip'' (year (now stub_env)) (month (now stub_env))
                (day (now stub_env)) (hour (now stub_env)) (minute (now stub_env))
                (second (now stub_env))]"
    by (simp add: stub_env_def sample_now_def spec_directory_name_def zero_padded_def
        str_nat_digit str_nat_more digit_char_def os_path_join_def join_step_def)
  from storage_location [OF stem d, of sample_request fresh_world
      "fst (transcribe stub_env sample_request fresh_world)"
      "fst (snd (transcribe stub_env sample_request fresh_world))"]
    sample_run sample_request_fields(2)
  show ?thesis by (simp add: os_path_join_def join_step_def)
qed



section \<open>Properties of the download handlers\<close>

lemma download_resolution:
  assumes "p = os_path_join (STATIC_FOLDER env) [folder, fname]"
    and "\<not> list_ex (\<lambda>q. files w q \<noteq> None) (proper_ancestors p)"
  shows "(\<not> path_exists w p \<longrightarrow>
            download_text env folder fname w =
              (w\<lparr>log := log w @ [(ERROR, ''Text file not found: '' @ p)]\<rparr>,
               Inr (Json [(''error'', ''File not found'')], 404)) \<and>
            download_vtt env folder fname w =
              (w\<lparr>log := log w @ [(ERROR, ''VTT file not found: '' @ p)]\<rparr>,
               Inr (Json [(''error'', ''File not found'')], 404))) \<and>
         (files w p = Some c \<longrightarrow>
            download_text env folder fname w = (w, Inr (Attachment p c, 200)) \<and>
            download_vtt env folder fname w = (w, Inr (Attachment p c, 200)))"
  using assms
  by (simp add: download_text_def download_vtt_def send_file_def path_exists_def
      logger_error_def Let_def)

lemma download_resolution_sample:
  "download_vtt stub_env ''job'' ''clip.vtt'' stored_world =
     (stored_world, Inr (Attachment ''static/job/clip.vtt'' ''WEBVTT'', 200)) \<and>
   snd (download_text stub_env ''job'' ''nothing'' stored_world) =
     Inr (Json [(''error'', ''File not found'')], 404)"
proof -
  have p1: "''static/job/clip.vtt'' = os_path_join (STATIC_FOLDER stub_env) [''job'', ''clip.vtt'']"
    by (simp add: stub_env_fields os_path_join_def join_step_def)
  have p2: "''static/job/nothing'' = os_path_join (STATIC_FOLDER stub_env) [''job'', ''nothing'']"
    by (simp add: stub_env_fields os_path_join_def join_step_def)
  have a1: "\<not> list_ex (\<lambda>q. files stored_world q \<noteq> None) (proper_ancestors ''static/job/clip.vtt'')"
    by (simp add: proper_ancestors_def upt_rec stored_world_def)
  have a2: "\<not> list_ex (\<lambda>q. files stored_world q \<noteq> None) (proper_ancestors ''static/job/nothing'')"
    by (simp add: proper_ancestors_def upt_rec stored_world_def)
  have f: "files stored_world ''static/job/clip.vtt'' = Some ''WEBVTT''"
    by (simp add: stored_world_def)
  have n: "\<not> path_exists stored_world ''static/job/nothing''"
    by (simp add: path_exists_def stored_world_def)
  from download_resolution [OF p1 a1, of "''WEBVTT''"] f
       download_resolution [OF p2 a2, of "''x''"] n
  show ?thesis by simp
qed

text \<open>
  Claim C9: a download answers 404 when the resolved path does not exist, and returns the
  file otherwise; the docstrings of both handlers promise status 200 or 404 and nothing
  else. The handlers catch \<open>FileNotFoundError\<close> only. Below a regular file nothing
  exists, and the request is not answered with 404: the \<open>NotADirectoryError\<close> of
  \<open>send_file\<close> leaves the handler. A directory exists, and is not returned: the
  \<open>IsADirectoryError\<close> leaves the handler as well.
\<close>

theorem download_uncaught_errors:
  "os_path_join (STATIC_FOLDER stub_env) [''job'', ''clip.vtt/x''] = ''static/job/clip.vtt/x'' \<and>
   files stored_world ''static/job/clip.vtt/x'' = None \<and>
   ''static/job/clip.vtt/x'' \<notin> dirs stored_world \<and>
   download_text stub_env ''job'' ''clip.vtt/x'' stored_world =
     (stored_world, Inl (Exn NotADirectoryError ''static/job/clip.vtt/x'')) \<and>
   download_vtt stub_env ''job'' ''clip.vtt/x'' stored_world =
     (stored_world, Inl (Exn NotADirectoryError ''static/job/clip.vtt/x'')) \<and>
   os_path_join (STATIC_FOLDER stub_env) [''job'', ''parts''] = ''static/job/parts'' \<and>
   ''static/job/parts'' \<in> dirs nested_world \<and>
   download_text stub_env ''job'' ''parts'' nested_world =
     (nested_world, Inl (Exn IsADirectoryError ''static/job/parts'')) \<and>
   download_vtt stub_env ''job'' ''parts'' nested_world =
     (nested_world, Inl (Exn IsADirectoryError ''static/job/parts''))"
proof -
  have p1: "os_path_join (STATIC_FOLDER stub_env) [''job'', ''clip.vtt/x''] = ''static/job/clip.vtt/x''"
    by (simp add: stub_env_fields os_path_join_def join_step_def)
  have p2: "os_path_join (STATIC_FOLDER stub_env) [''job'', ''parts''] = ''static/job/parts''"
    by (simp add: stub_env_fields os_path_join_def join_step_def)
  have a1: "proper_ancestors ''static/job/clip.vtt/x'' =
              [''static'', ''static/job'', ''static/job/clip.vtt'']"
    by (simp add: proper_ancestors_def upt_rec)
  have a2: "proper_ancestors ''static/job/parts'' = [''static'', ''static/job'']"
    by (simp add: proper_ancestors_def upt_rec)
  have s1: "send_file ''static/job/clip.vtt/x'' stored_world =
              (stored_world, Inl (Exn NotADirectoryError ''static/job/clip.vtt/x''))"
    by (simp add: send_file_def a1) (simp add: stored_world_def)
  have s2: "send_file ''static/job/parts'' nested_world =
              (nested_world, Inl (Exn IsADirectoryError ''static/job/parts''))"
    by (simp add: send_file_def a2) (simp add: nested_world_def)
  have e1: "files stored_world ''static/job/clip.vtt/x'' = None \<and>
            ''static/job/clip.vtt/x'' \<notin> dirs stored_world"
    by (simp add: stored_world_def)
  have e2: "''static/job/parts'' \<in> dirs nested_world"
    by (simp add: nested_world_def)
  from e1 e2 show ?thesis
    by (simp add: download_text_def download_vtt_def Let_def p1 p2 s1 s2)
qed

end
